theory Spec2Isabelle
  imports Main
begin

section \<open>Exceptions and basic Python operations\<close>

text \<open>
  Python exceptions as values. \<open>Exception m\<close> stands for any exception of class
  \<^verbatim>\<open>Exception\<close>, with \<open>m\<close> what \<^verbatim>\<open>str(e)\<close> gives; \<open>CancelledError\<close> is asyncio's
  cancellation, a \<^verbatim>\<open>BaseException\<close> that an \<^verbatim>\<open>except Exception\<close> clause does not catch.
\<close>

datatype exn = Exception string | CancelledError

text \<open>\<^verbatim>\<open>sep.join(xs)\<close> on strings.\<close>

fun join :: "string \<Rightarrow> string list \<Rightarrow> string" where
  "join sep [] = []"
| "join sep [x] = x"
| "join sep (x # y # ys) = x @ sep @ join sep (y # ys)"

text \<open>
  The slice \<^verbatim>\<open>xs[i:]\<close>: a negative start counts from the end and is clamped at the
  beginning of the list, a start past the end gives the empty list.
\<close>

definition slice_from :: "'a list \<Rightarrow> int \<Rightarrow> 'a list" where
  "slice_from xs i =
     (let n = int (length xs);
          start = (if i < 0 then max 0 (n + i) else min i n)
      in drop (nat start) xs)"

text \<open>\<^verbatim>\<open>os.path.join(a, b)\<close> of posixpath, for two components.\<close>

definition path_join :: "string \<Rightarrow> string \<Rightarrow> string" where
  "path_join a b =
     (if b \<noteq> [] \<and> hd b = CHR ''/'' then b
      else if a = [] \<or> last a = CHR ''/'' then a @ b
      else a @ ''/'' @ b)"

section \<open>api/utils.py: the upload size limit\<close>

text \<open>
  \<^verbatim>\<open>HTTPException(status_code=..., detail=...)\<close>. The detail text of the size error is
  built with float formatting (\<^verbatim>\<open>format_file_size\<close>) and is left out of the model.
\<close>

datatype http_exception = HTTPException (status_code: nat)

definition HTTP_400_BAD_REQUEST :: nat where
  "HTTP_400_BAD_REQUEST = 400"

definition MAX_FILE_SIZES :: "string \<rightharpoonup> int" where
  "MAX_FILE_SIZES =
     [''pdf'' \<mapsto> 20 * 1024 * 1024,
      ''csv'' \<mapsto> 10 * 1024 * 1024,
      ''xlsx'' \<mapsto> 15 * 1024 * 1024]"

text \<open>
  \<^verbatim>\<open>max_size = MAX_FILE_SIZES.get(file_type)\<close>, then
  \<^verbatim>\<open>if max_size and file_size > max_size: raise\<close>: a missing entry (\<^verbatim>\<open>None\<close>) and a
  zero entry are both falsy.
\<close>

definition validate_file_size :: "int \<Rightarrow> string \<Rightarrow> http_exception + unit" where
  "validate_file_size file_size file_type =
     (case MAX_FILE_SIZES file_type of
        None \<Rightarrow> Inr ()
      | Some max_size \<Rightarrow>
          if max_size \<noteq> 0 \<and> file_size > max_size
          then Inl (HTTPException HTTP_400_BAD_REQUEST)
          else Inr ())"

section \<open>models/file_processor.py: parsing one uploaded file\<close>

type_synonym bytes = string

text \<open>An uploaded file as the code reads it: \<^verbatim>\<open>.name\<close>, \<^verbatim>\<open>.type\<close>, \<^verbatim>\<open>.getbuffer()\<close>.\<close>

record uploaded_file =
  name :: string
  type :: string
  getbuffer :: bytes

text \<open>langchain's \<^verbatim>\<open>Document(page_content=..., metadata=...)\<close>.\<close>

record document =
  page_content :: string
  metadata :: "string \<rightharpoonup> string"

text \<open>The scratch directory: the files that exist, with their content.\<close>

type_synonym filesystem = "string \<rightharpoonup> bytes"

text \<open>
  The format libraries are outside the repository and are parameters: what
  \<^verbatim>\<open>fitz.open\<close> yields as the text of each page, and what \<^verbatim>\<open>pd.read_csv(..).to_string()\<close>
  and \<^verbatim>\<open>pd.read_excel(..).to_string()\<close> yield, each from a file's bytes, or the exception
  they raise.
\<close>

record decoders =
  fitz_pages :: "bytes \<Rightarrow> exn + string list"
  read_csv_to_string :: "bytes \<Rightarrow> exn + string"
  read_excel_to_string :: "bytes \<Rightarrow> exn + string"

definition FileNotFoundError :: exn where
  "FileNotFoundError = Exception ''No such file or directory''"

definition aprocess_pdf :: "decoders \<Rightarrow> filesystem \<Rightarrow> string \<Rightarrow> exn + string" where
  "aprocess_pdf dec d file_path =
     (case d file_path of
        None \<Rightarrow> Inl FileNotFoundError
      | Some content \<Rightarrow>
          (case fitz_pages dec content of
             Inl e \<Rightarrow> Inl e
           | Inr pages \<Rightarrow> Inr (join ''\<newline>'' pages)))"

definition aprocess_csv :: "decoders \<Rightarrow> filesystem \<Rightarrow> string \<Rightarrow> exn + string" where
  "aprocess_csv dec d file_path =
     (case d file_path of
        None \<Rightarrow> Inl FileNotFoundError
      | Some content \<Rightarrow> read_csv_to_string dec content)"

definition aprocess_excel :: "decoders \<Rightarrow> filesystem \<Rightarrow> string \<Rightarrow> exn + string" where
  "aprocess_excel dec d file_path =
     (case d file_path of
        None \<Rightarrow> Inl FileNotFoundError
      | Some content \<Rightarrow> read_excel_to_string dec content)"

text \<open>
  The places where \<^verbatim>\<open>aprocess_file\<close> is suspended and a cancellation of its task can be
  delivered: the \<^verbatim>\<open>aiofiles.open\<close> of the \<^verbatim>\<open>async with\<close>, the \<^verbatim>\<open>await f.write(..)\<close> inside
  it, and the \<^verbatim>\<open>await\<close> of the format decoder inside the \<^verbatim>\<open>try\<close>.
\<close>

datatype suspension = AwaitOpen | AwaitWrite | AwaitDecode

definition await_decode :: "suspension option \<Rightarrow> exn + string \<Rightarrow> exn + string" where
  "await_decode cancel r = (if cancel = Some AwaitDecode then Inl CancelledError else r)"

text \<open>The body of the \<^verbatim>\<open>try\<close>: the dispatch on the declared content type.\<close>

definition try_body ::
  "suspension option \<Rightarrow> decoders \<Rightarrow> uploaded_file \<Rightarrow> string \<Rightarrow> filesystem
     \<Rightarrow> exn + document option" where
  "try_body cancel dec uploaded_file temp_file_path d =
     (let made = (\<lambda>r. case r of
                     Inl e \<Rightarrow> Inl e
                   | Inr text \<Rightarrow>
                       Inr (Some \<lparr>page_content = text,
                                  metadata = [''file_name'' \<mapsto> name uploaded_file]\<rparr>))
      in if type uploaded_file = ''application/pdf''
         then made (await_decode cancel (aprocess_pdf dec d temp_file_path))
         else if type uploaded_file = ''text/csv''
         then made (await_decode cancel (aprocess_csv dec d temp_file_path))
         else if type uploaded_file =
                   ''application/vnd.openxmlformats-officedocument.spreadsheetml.sheet''
         then made (await_decode cancel (aprocess_excel dec d temp_file_path))
         else Inr None)"

text \<open>The \<^verbatim>\<open>finally\<close> clause: \<^verbatim>\<open>if os.path.exists(p): os.remove(p)\<close>.\<close>

definition finally_cleanup :: "string \<Rightarrow> filesystem \<Rightarrow> filesystem" where
  "finally_cleanup temp_file_path d =
     (if d temp_file_path \<noteq> None then d(temp_file_path := None) else d)"

text \<open>
  \<^verbatim>\<open>aprocess_file\<close>, with the suspension point (if any) at which the task's cancellation
  arrives. Opening with mode \<^verbatim>\<open>'wb'\<close> creates or truncates the file; the write stores the
  buffer; both happen before the \<^verbatim>\<open>try\<close> is entered. A cancellation raises
  \<open>CancelledError\<close> at the suspended \<^verbatim>\<open>await\<close>: at the open the file is taken as not yet
  created, at the write it exists and holds nothing of the buffer yet. Failures of the
  scratch directory itself (a full disk, a missing /tmp) are not modelled.
\<close>

definition aprocess_file_cancel ::
  "suspension option \<Rightarrow> decoders \<Rightarrow> uploaded_file \<Rightarrow> filesystem
     \<Rightarrow> (exn + document option) \<times> filesystem" where
  "aprocess_file_cancel cancel dec uploaded_file d =
     (let temp_file_path = path_join ''/tmp'' (name uploaded_file)
      in if cancel = Some AwaitOpen then (Inl CancelledError, d)
         else let d1 = d(temp_file_path \<mapsto> [])
              in if cancel = Some AwaitWrite then (Inl CancelledError, d1)
                 else let d2 = d1(temp_file_path \<mapsto> getbuffer uploaded_file)
                      in (try_body cancel dec uploaded_file temp_file_path d2,
                          finally_cleanup temp_file_path d2))"

text \<open>The call that is not cancelled.\<close>

definition aprocess_file ::
  "decoders \<Rightarrow> uploaded_file \<Rightarrow> filesystem \<Rightarrow> (exn + document option) \<times> filesystem" where
  "aprocess_file = aprocess_file_cancel None"

section \<open>app.py: fan-out over the uploaded files\<close>

text \<open>
  \<^verbatim>\<open>asyncio.gather(*tasks)\<close>: every task runs, the results come back in the order of
  the tasks whatever the order of completion, and an exception of a task is raised to
  the caller. The tasks are run here one after the other in submission order, and when
  several raise, the exception of the earliest one in the list is the one reported.
\<close>

fun gather ::
  "(filesystem \<Rightarrow> (exn + 'a) \<times> filesystem) list \<Rightarrow> filesystem
     \<Rightarrow> (exn + 'a list) \<times> filesystem" where
  "gather [] d = (Inr [], d)"
| "gather (t # ts) d =
     (case t d of
        (r, d1) \<Rightarrow>
          (case gather ts d1 of
             (rs, d2) \<Rightarrow>
               ((case r of
                   Inl e \<Rightarrow> Inl e
                 | Inr x \<Rightarrow> (case rs of Inl e \<Rightarrow> Inl e | Inr xs \<Rightarrow> Inr (x # xs))),
                d2)))"

definition parse_tasks ::
  "decoders \<Rightarrow> uploaded_file list
     \<Rightarrow> (filesystem \<Rightarrow> (exn + document option) \<times> filesystem) list" where
  "parse_tasks dec uploaded_files = map (\<lambda>file. aprocess_file dec file) uploaded_files"

definition aprocess_files ::
  "decoders \<Rightarrow> uploaded_file list \<Rightarrow> filesystem \<Rightarrow> (exn + document list) \<times> filesystem" where
  "aprocess_files dec uploaded_files d =
     (let tasks = parse_tasks dec uploaded_files
      in case gather tasks d of
           (Inl e, d1) \<Rightarrow> (Inl e, d1)
         | (Inr documents, d1) \<Rightarrow>
             (Inr (map the (filter (\<lambda>doc. doc \<noteq> None) documents)), d1))"

section \<open>models/vectorstore.py and models/retriever.py\<close>

text \<open>
  The vector database is outside the repository; the retriever only uses its
  \<^verbatim>\<open>similarity_search(query, k)\<close>, which is a field here.
\<close>

record chroma =
  similarity_search :: "string \<Rightarrow> int \<Rightarrow> exn + document list"

record retriever =
  vector_db :: chroma

text \<open>The calls to outside capabilities, in the order they are made.\<close>

datatype call =
    FromDocuments "document list"
  | SimilaritySearch string int
  | LlmInvoke string

text \<open>
  \<^verbatim>\<open>aretrieve(self, query, top_k=5)\<close>: the optional argument is \<open>None\<close> when the caller
  leaves \<^verbatim>\<open>top_k\<close> out.
\<close>

definition aretrieve ::
  "retriever \<Rightarrow> string \<Rightarrow> int option \<Rightarrow> call list \<Rightarrow> (exn + document list) \<times> call list" where
  "aretrieve r query top_k cs =
     (let k = (case top_k of None \<Rightarrow> 5 | Some k \<Rightarrow> k)
      in (similarity_search (vector_db r) query k, cs @ [SimilaritySearch query k]))"

text \<open>
  Modelled from the spec: \<^verbatim>\<open>RecursiveCharacterTextSplitter.split_documents\<close> belongs to
  the langchain library and is not in the repository. The spec's data model gives a
  Chunk as \<open>{text, metadata: inherited from parent Document}\<close> and the Chunker as
  \<open>split(sequence of Document) \<rightarrow> sequence of Chunk\<close>; where the text of a document is
  cut is left to the parameter \<open>split_text\<close>.
\<close>

definition split_documents :: "(string \<Rightarrow> string list) \<Rightarrow> document list \<Rightarrow> document list" where
  "split_documents split_text documents =
     concat (map (\<lambda>doc. map (\<lambda>chunk. \<lparr>page_content = chunk, metadata = metadata doc\<rparr>)
                              (split_text (page_content doc)))
                 documents)"

definition CHUNK_SIZE :: int where
  "CHUNK_SIZE = 1500"

definition CHUNK_OVERLAP :: int where
  "CHUNK_OVERLAP = 200"

text \<open>
  \<^verbatim>\<open>AsyncRAGApp\<close> with its collaborators: the file processor's decoders, the text
  splitter built from \<open>CHUNK_SIZE\<close> and \<open>CHUNK_OVERLAP\<close>, \<^verbatim>\<open>Chroma.from_documents\<close> with
  the embedding model and the storage path, and the language model (the text of the
  message it answers with, which is what \<^verbatim>\<open>StrOutputParser\<close> extracts).
\<close>

record rag_app =
  file_processor :: decoders
  text_splitter :: "int \<Rightarrow> int \<Rightarrow> string \<Rightarrow> string list"
  from_documents :: "document list \<Rightarrow> exn + chroma"
  llm_ainvoke :: "string \<Rightarrow> exn + string"

definition aprocess_documents :: "rag_app \<Rightarrow> document list \<Rightarrow> document list" where
  "aprocess_documents app documents =
     split_documents (text_splitter app CHUNK_SIZE CHUNK_OVERLAP) documents"

definition asetup_vectorstore ::
  "rag_app \<Rightarrow> document list \<Rightarrow> call list \<Rightarrow> (exn + chroma) \<times> call list" where
  "asetup_vectorstore app documents cs =
     (let doc_chunks = aprocess_documents app documents
      in (from_documents app doc_chunks, cs @ [FromDocuments doc_chunks]))"

definition asetup_retriever ::
  "rag_app \<Rightarrow> document list \<Rightarrow> call list \<Rightarrow> (exn + retriever) \<times> call list" where
  "asetup_retriever app documents cs =
     (case asetup_vectorstore app documents cs of
        (Inl e, cs1) \<Rightarrow> (Inl e, cs1)
      | (Inr vectordb, cs1) \<Rightarrow> (Inr \<lparr>vector_db = vectordb\<rparr>, cs1))"

section \<open>app.py: prompt assembly and generation\<close>

text \<open>
  The template of \<^verbatim>\<open>_create_prompt\<close>, rendered: the three placeholders are replaced by
  the given texts, the rest is the literal of the source.
\<close>

definition prompt_ainvoke :: "string \<Rightarrow> string \<Rightarrow> string \<Rightarrow> string" where
  "prompt_ainvoke context chat_history question =
     ''You are a helpful AI assistant. Using the following context, answer the user''
     @ [CHR 0x27] @ ''s question. \<newline>''
     @ ''        If you cannot answer the question based on the context, say so.\<newline>''
     @ ''\<newline>''
     @ ''        Context: '' @ context @ ''\<newline>''
     @ ''        Chat History: '' @ chat_history @ ''\<newline>''
     @ ''        Question: '' @ question @ ''\<newline>''
     @ ''\<newline>''
     @ ''        Answer the question based on the context provided. If uncertain, admit it.\<newline>''
     @ ''        Make your response clear and well-structured.\<newline>''
     @ ''        ''"

text \<open>\<^verbatim>\<open>f"Q: {q}\nA: {a}"\<close> for one pair of the history.\<close>

definition format_pair :: "string \<times> string \<Rightarrow> string" where
  "format_pair qa = ''Q: '' @ fst qa @ ''\<newline>A: '' @ snd qa"

definition history_str :: "(string \<times> string) list \<Rightarrow> string" where
  "history_str chat_history =
     join ''\<newline>'' (map format_pair (slice_from chat_history (- 3)))"

definition agenerate_response ::
  "rag_app \<Rightarrow> string \<Rightarrow> retriever \<Rightarrow> (string \<times> string) list \<Rightarrow> call list
     \<Rightarrow> (exn + string) \<times> call list" where
  "agenerate_response app query r chat_history cs =
     (case aretrieve r query (Some 3) cs of
        (Inl e, cs1) \<Rightarrow> (Inl e, cs1)
      | (Inr docs, cs1) \<Rightarrow>
          (let context = join ''\<newline>'' (map page_content docs);
               prompt_response = prompt_ainvoke context (history_str chat_history) query
           in (llm_ainvoke app prompt_response, cs1 @ [LlmInvoke prompt_response])))"

section \<open>app.py: the session and one run of main\<close>

text \<open>
  \<^verbatim>\<open>st.session_state\<close>: the displayed messages (role, content), the chat history of
  (question, answer) pairs, and the retriever, \<open>None\<close> until an ingestion succeeds.
\<close>

record session_state =
  messages :: "(string \<times> string) list"
  chat_history :: "(string \<times> string) list"
  retriever :: "retriever option"

definition initial_session :: session_state where
  "initial_session = \<lparr>messages = [], chat_history = [], retriever = None\<rparr>"

text \<open>What the page shows; titles, spinners and the upload widget are left out.\<close>

datatype shown = StWarning string | StError string | StMarkdown string string

record world =
  disk :: filesystem
  calls :: "call list"
  page :: "shown list"

definition st_show :: "shown \<Rightarrow> world \<Rightarrow> world" where
  "st_show x w = w\<lparr>page := page w @ [x]\<rparr>"

text \<open>
  How a block of \<^verbatim>\<open>main\<close> ends: control goes on to the next statement, \<^verbatim>\<open>main\<close>
  returns, or an exception leaves \<^verbatim>\<open>main\<close>.
\<close>

datatype flow = Proceeds | Returns | Raises exn

text \<open>
  The body of \<^verbatim>\<open>if st.session_state.retriever is None:\<close> (the ingestion), with its
  \<^verbatim>\<open>except Exception\<close> handler.
\<close>

definition ingest_failed :: "exn \<Rightarrow> session_state \<Rightarrow> world \<Rightarrow> flow \<times> session_state \<times> world" where
  "ingest_failed e s w =
     (case e of
        Exception m \<Rightarrow> (Returns, s, st_show (StError (''Error processing documents: '' @ m)) w)
      | CancelledError \<Rightarrow> (Raises CancelledError, s, w))"

definition ingest ::
  "rag_app \<Rightarrow> uploaded_file list \<Rightarrow> session_state \<Rightarrow> world \<Rightarrow> flow \<times> session_state \<times> world" where
  "ingest app uploaded_files s w =
     (case aprocess_files (file_processor app) uploaded_files (disk w) of
        (Inl e, d1) \<Rightarrow> ingest_failed e s (w\<lparr>disk := d1\<rparr>)
      | (Inr documents, d1) \<Rightarrow>
          if documents = []
          then (Returns, s, st_show (StError ''No valid documents were processed.'') (w\<lparr>disk := d1\<rparr>))
          else (case asetup_retriever app documents (calls w) of
                  (Inl e, cs1) \<Rightarrow> ingest_failed e s (w\<lparr>disk := d1, calls := cs1\<rparr>)
                | (Inr r, cs1) \<Rightarrow>
                    (Proceeds, s\<lparr>retriever := Some r\<rparr>, w\<lparr>disk := d1, calls := cs1\<rparr>)))"

text \<open>
  The body of \<^verbatim>\<open>if prompt := st.chat_input(..)\<close>: one question. A session without a
  retriever cannot reach it through \<^verbatim>\<open>main\<close>; there the attribute access on \<^verbatim>\<open>None\<close>
  raises inside the \<^verbatim>\<open>try\<close>.
\<close>

definition AttributeError :: exn where
  "AttributeError =
     Exception ([CHR 0x27] @ ''NoneType'' @ [CHR 0x27] @ '' object has no attribute ''
                @ [CHR 0x27] @ ''aretrieve'' @ [CHR 0x27])"

definition ask ::
  "rag_app \<Rightarrow> string \<Rightarrow> session_state \<Rightarrow> world \<Rightarrow> flow \<times> session_state \<times> world" where
  "ask app prompt s w =
     (let s1 = s\<lparr>messages := messages s @ [(''user'', prompt)]\<rparr>;
          w1 = st_show (StMarkdown ''user'' prompt) w;
          (result, cs1) =
            (case retriever s1 of
               None \<Rightarrow> (Inl AttributeError, calls w1)
             | Some r \<Rightarrow> agenerate_response app prompt r (chat_history s1) (calls w1));
          w2 = w1\<lparr>calls := cs1\<rparr>
      in case result of
           Inr response \<Rightarrow>
             (Returns,
              s1\<lparr>messages := messages s1 @ [(''assistant'', response)],
                 chat_history := chat_history s1 @ [(prompt, response)]\<rparr>,
              st_show (StMarkdown ''assistant'' response) w2)
         | Inl (Exception m) \<Rightarrow>
             (Returns, s1, st_show (StError (''Error generating response: '' @ m)) w2)
         | Inl CancelledError \<Rightarrow> (Raises CancelledError, s1, w2))"

definition please_upload :: string where
  "please_upload = [CHR 0xF0, CHR 0x9F, CHR 0x91, CHR 0x8B] @ '' Please upload files to start chatting!''"

text \<open>
  One run of \<^verbatim>\<open>main\<close>: the uploaded files of the widget, and the text of the chat input
  (\<open>None\<close> when nothing was entered; an empty text is falsy as well).
\<close>

definition main ::
  "rag_app \<Rightarrow> uploaded_file list \<Rightarrow> string option \<Rightarrow> session_state \<Rightarrow> world
     \<Rightarrow> flow \<times> session_state \<times> world" where
  "main app uploaded_files chat_input s w =
     (if uploaded_files = [] then (Returns, s, st_show (StWarning please_upload) w)
      else case (if retriever s = None then ingest app uploaded_files s w
                 else (Proceeds, s, w)) of
             (Proceeds, s1, w1) \<Rightarrow>
               (let w2 = w1\<lparr>page := page w1 @ map (\<lambda>(role, content). StMarkdown role content)
                                                   (messages s1)\<rparr>
                in case chat_input of
                     None \<Rightarrow> (Returns, s1, w2)
                   | Some prompt \<Rightarrow>
                       if prompt = [] then (Returns, s1, w2) else ask app prompt s1 w2)
           | (Returns, s1, w1) \<Rightarrow> (Returns, s1, w1)
           | (Raises e, s1, w1) \<Rightarrow> (Raises e, s1, w1))"

section \<open>Auxiliary definitions and concrete inputs\<close>

text \<open>The content types for which the dispatch of \<open>try_body\<close> has a branch.\<close>

definition supported :: "uploaded_file \<Rightarrow> bool" where
  "supported f =
     (type f = ''application/pdf'' \<or> type f = ''text/csv''
      \<or> type f = ''application/vnd.openxmlformats-officedocument.spreadsheetml.sheet'')"

text \<open>Concrete collaborators and inputs, used to evaluate the model.\<close>

definition example_decoders :: decoders where
  "example_decoders =
     \<lparr>fitz_pages = (\<lambda>content. Inr [content]),
      read_csv_to_string = (\<lambda>content. Inr content),
      read_excel_to_string = (\<lambda>content. Inl (Exception ''not a workbook''))\<rparr>"

definition report_pdf :: uploaded_file where
  "report_pdf = \<lparr>name = ''report.pdf'', type = ''application/pdf'',
                  getbuffer = ''The capital of France is Paris.''\<rparr>"

definition notes_txt :: uploaded_file where
  "notes_txt = \<lparr>name = ''notes.txt'', type = ''text/plain'', getbuffer = ''hello''\<rparr>"

definition people_csv :: uploaded_file where
  "people_csv = \<lparr>name = ''people.csv'', type = ''text/csv'',
                  getbuffer = ''name,age\<newline>Alice,30''\<rparr>"

definition example_chunks :: "document list" where
  "example_chunks =
     map (\<lambda>t. \<lparr>page_content = t, metadata = [''file_name'' \<mapsto> ''report.pdf'']\<rparr>)
         [''one'', ''two'', ''three'', ''four'', ''five'']"

text \<open>An index of five chunks that answers every query with its first \<open>k\<close> chunks.\<close>

definition example_chroma :: chroma where
  "example_chroma = \<lparr>similarity_search = (\<lambda>query k. Inr (take (nat k) example_chunks))\<rparr>"

text \<open>An application whose language model refuses every call.\<close>

definition example_app :: rag_app where
  "example_app =
     \<lparr>file_processor = example_decoders,
      text_splitter = (\<lambda>chunk_size chunk_overlap text. [text]),
      from_documents = (\<lambda>chunks. Inr example_chroma),
      llm_ainvoke = (\<lambda>prompt. Inl (Exception ''rate limit''))\<rparr>"

text \<open>The same with a splitter that cuts after 15 characters, and with a model that answers.\<close>

definition halves_app :: rag_app where
  "halves_app = example_app\<lparr>text_splitter :=
      (\<lambda>chunk_size chunk_overlap text. [take 15 text, drop 15 text])\<rparr>"

definition answering_app :: rag_app where
  "answering_app = example_app\<lparr>llm_ainvoke := (\<lambda>prompt. Inr ''Paris'')\<rparr>"

definition ready_session :: session_state where
  "ready_session =
     \<lparr>messages = [(''user'', ''hi''), (''assistant'', ''hello'')],
      chat_history = [(''hi'', ''hello'')],
      retriever = Some \<lparr>vector_db = example_chroma\<rparr>\<rparr>"

definition long_history :: "(string \<times> string) list" where
  "long_history = [(''q1'', ''a1''), (''q2'', ''a2''), (''q3'', ''a3''), (''q4'', ''a4'')]"

definition empty_world :: world where
  "empty_world = \<lparr>disk = Map.empty, calls = [], page = []\<rparr>"

lemmas example_defs = example_decoders_def report_pdf_def notes_txt_def people_csv_def
  example_chunks_def example_chroma_def example_app_def halves_app_def answering_app_def
  ready_session_def long_history_def empty_world_def

section \<open>Parsing: results, fan-out and the scratch file\<close>

text \<open>
  What a parse returns does not depend on what the scratch directory held before: the
  decoder reads the file the call has just written.
\<close>

lemma aprocess_file_result_indep:
  "fst (aprocess_file dec f d) = fst (aprocess_file dec f d0)"
  by (simp add: aprocess_file_def aprocess_file_cancel_def Let_def try_body_def
        aprocess_pdf_def aprocess_csv_def aprocess_excel_def)

lemma aprocess_file_unsupported:
  "\<not> supported f \<Longrightarrow>
     aprocess_file dec f d = (Inr None, d(path_join ''/tmp'' (name f) := None))"
  by (simp add: supported_def aprocess_file_def aprocess_file_cancel_def
        Let_def try_body_def finally_cleanup_def)

lemma aprocess_file_document:
  "aprocess_file dec f d = (Inr (Some doc), d') \<Longrightarrow>
     metadata doc = [''file_name'' \<mapsto> name f]"
  by (auto simp: aprocess_file_def aprocess_file_cancel_def Let_def try_body_def
        split: if_splits sum.splits)

text \<open>
  Once the \<^verbatim>\<open>try\<close> has been entered (no cancellation, or one that arrives at the
  decoder), the scratch file is gone when the call ends, whatever the result.
\<close>

lemma aprocess_file_cleanup:
  "cancel \<noteq> Some AwaitOpen \<Longrightarrow> cancel \<noteq> Some AwaitWrite \<Longrightarrow>
     snd (aprocess_file_cancel cancel dec f d) (path_join ''/tmp'' (name f)) = None"
  by (simp add: aprocess_file_cancel_def Let_def finally_cleanup_def)

lemma gather_parse_Inr:
  "gather (map (\<lambda>file. aprocess_file dec file) files) d = (Inr rs, d')
   \<Longrightarrow> map Inr rs = map (\<lambda>f. fst (aprocess_file dec f d0)) files"
proof (induction files arbitrary: rs d d')
  case Nil
  then show ?case by simp
next
  case (Cons f files)
  obtain r d1 where t: "aprocess_file dec f d = (r, d1)" by (cases "aprocess_file dec f d")
  obtain rs' d2 where g: "gather (map (\<lambda>file. aprocess_file dec file) files) d1 = (rs', d2)"
    by (cases "gather (map (\<lambda>file. aprocess_file dec file) files) d1")
  from Cons.prems t g obtain x xs where r: "r = Inr x" and rs': "rs' = Inr xs" and rs: "rs = x # xs"
    by (auto split: sum.splits)
  have "map Inr xs = map (\<lambda>f. fst (aprocess_file dec f d0)) files"
    using Cons.IH g rs' by simp
  moreover have "fst (aprocess_file dec f d0) = Inr x"
    using aprocess_file_result_indep [of dec f d0 d] t r by simp
  ultimately show ?case using rs by simp
qed


lemma gather_unsupported:
  "\<forall>f\<in>set files. \<not> supported f \<Longrightarrow>
     \<exists>d'. gather (map (\<lambda>file. aprocess_file dec file) files) d
            = (Inr (replicate (length files) None), d')"
proof (induction files arbitrary: d)
  case Nil
  then show ?case by simp
next
  case (Cons f files)
  then have f: "aprocess_file dec f d = (Inr None, d(path_join ''/tmp'' (name f) := None))"
    by (simp add: aprocess_file_unsupported)
  from Cons obtain d' where
    "gather (map (\<lambda>file. aprocess_file dec file) files) (d(path_join ''/tmp'' (name f) := None))
       = (Inr (replicate (length files) None), d')"
    by fastforce
  then show ?case using f by simp
qed

lemma aprocess_files_unsupported:
  assumes "\<forall>f\<in>set files. \<not> supported f"
  shows "\<exists>d'. aprocess_files dec files d = (Inr [], d')"
proof -
  from gather_unsupported [OF assms, of dec d] obtain d' where
    "gather (map (\<lambda>file. aprocess_file dec file) files) d
       = (Inr (replicate (length files) None), d')" ..
  then show ?thesis by (simp add: aprocess_files_def parse_tasks_def)
qed


lemma aprocess_files_documents:
  assumes "aprocess_files dec files d = (Inr docs, d')" and "doc \<in> set docs"
  shows "\<exists>f\<in>set files. metadata doc = [''file_name'' \<mapsto> name f]"
proof -
  from assms(1) obtain rs where
    g: "gather (map (\<lambda>file. aprocess_file dec file) files) d = (Inr rs, d')"
    and docs: "docs = map the (filter (\<lambda>doc. doc \<noteq> None) rs)"
    by (auto simp: aprocess_files_def parse_tasks_def split: prod.splits sum.splits)
  from assms(2) docs have "Some doc \<in> set rs" by auto
  then have "Inr (Some doc) \<in> set (map Inr rs)" by simp
  also have "map Inr rs = map (\<lambda>f. fst (aprocess_file dec f d)) files"
    using g by (rule gather_parse_Inr)
  finally have "Inr (Some doc) \<in> set (map (\<lambda>f. fst (aprocess_file dec f d)) files)" .
  then obtain f where f: "f \<in> set files" and "fst (aprocess_file dec f d) = Inr (Some doc)"
    by auto
  then obtain d1 where "aprocess_file dec f d = (Inr (Some doc), d1)"
    by (cases "aprocess_file dec f d") auto
  then have "metadata doc = [''file_name'' \<mapsto> name f]" by (rule aprocess_file_document)
  with f show ?thesis by blast
qed

lemma split_documents_metadata:
  "chunk \<in> set (split_documents split_text documents) \<Longrightarrow>
     \<exists>doc\<in>set documents. metadata chunk = metadata doc"
  by (auto simp: split_documents_def)



text \<open>
  C2. For a batch in which every file has an unsupported content type, the ingestion
  block shows "No valid documents were processed." and returns from \<open>main\<close> with the
  session state as it was, so a session without a retriever stays without one; no call
  to an outside capability is made (the index is not built, nothing is embedded).
  \<open>main\<close> reaches the block when the session has no retriever and the batch is not
  empty, and then ends the same way.
\<close>

theorem ingest_only_unsupported:
  assumes "\<forall>f\<in>set uploaded_files. \<not> supported f"
  shows "\<exists>w'. ingest app uploaded_files s w = (Returns, s, w')
              \<and> page w' = page w @ [StError ''No valid documents were processed.'']
              \<and> calls w' = calls w
              \<and> (retriever s = None \<and> uploaded_files \<noteq> [] \<longrightarrow>
                   main app uploaded_files chat_input s w = (Returns, s, w'))"
proof -
  from aprocess_files_unsupported [OF assms] obtain d' where
    "aprocess_files (file_processor app) uploaded_files (disk w) = (Inr [], d')" ..
  then show ?thesis by (simp add: ingest_def main_def st_show_def)
qed

theorem ingest_only_unsupported_witness:
  "\<not> supported notes_txt
   \<and> ingest example_app [notes_txt] initial_session empty_world
       = (Returns, initial_session,
          \<lparr>disk = Map.empty, calls = [],
           page = [StError ''No valid documents were processed.'']\<rparr>)
   \<and> main example_app [notes_txt] (Some ''hello?'') initial_session empty_world
       = (Returns, initial_session,
          \<lparr>disk = Map.empty, calls = [],
           page = [StError ''No valid documents were processed.'']\<rparr>)"
  using ingest_only_unsupported [of "[notes_txt]" example_app initial_session empty_world
      "Some ''hello?''"]
  by (simp add: example_defs supported_def initial_session_def ingest_def main_def
        st_show_def aprocess_files_def parse_tasks_def aprocess_file_def
        aprocess_file_cancel_def Let_def try_body_def finally_cleanup_def path_join_def)

text \<open>
  C5. The scratch file is written before the \<^verbatim>\<open>try\<close> whose \<^verbatim>\<open>finally\<close> removes it. A
  call that is cancelled while it is suspended in \<^verbatim>\<open>await f.write(..)\<close> ends with
  \<open>CancelledError\<close> and leaves the file it created in /tmp: here for report.pdf, from an
  empty scratch directory. (\<open>aprocess_file_cleanup\<close> covers the exits that do remove it.)
\<close>

theorem aprocess_file_cancelled_write_leaves_file:
  "aprocess_file_cancel (Some AwaitWrite) example_decoders report_pdf Map.empty
     = (Inl CancelledError, [''/tmp/report.pdf'' \<mapsto> []])"
  by (simp add: example_defs aprocess_file_cancel_def Let_def path_join_def)

text \<open>
  C8. A document that a parse returns has the name of its uploaded file under
  \<open>file_name\<close> in its metadata, and so has every chunk that splitting makes of it; for a
  batch, every document of \<open>aprocess_files\<close> and every chunk made of them carries the
  name of one of the uploaded files.
\<close>

theorem file_name_metadata:
  "(aprocess_file dec uploaded_file d = (Inr (Some doc), d') \<longrightarrow>
      metadata doc ''file_name'' = Some (name uploaded_file)
      \<and> (\<forall>chunk\<in>set (aprocess_documents app [doc]).
            metadata chunk ''file_name'' = Some (name uploaded_file)))
   \<and> (aprocess_files dec uploaded_files d = (Inr docs, d') \<longrightarrow>
        (\<forall>chunk\<in>set docs \<union> set (aprocess_documents app docs).
           \<exists>f\<in>set uploaded_files. metadata chunk ''file_name'' = Some (name f)))"
proof (intro conjI impI ballI)
  assume a: "aprocess_file dec uploaded_file d = (Inr (Some doc), d')"
  then show "metadata doc ''file_name'' = Some (name uploaded_file)"
    by (simp add: aprocess_file_document)
  fix chunk
  assume "chunk \<in> set (aprocess_documents app [doc])"
  then have "metadata chunk = metadata doc"
    using split_documents_metadata [of chunk _ "[doc]"] by (auto simp: aprocess_documents_def)
  then show "metadata chunk ''file_name'' = Some (name uploaded_file)"
    using a by (simp add: aprocess_file_document)
next
  fix chunk
  assume a: "aprocess_files dec uploaded_files d = (Inr docs, d')"
    and c: "chunk \<in> set docs \<union> set (aprocess_documents app docs)"
  from c obtain doc where "doc \<in> set docs" and "metadata chunk = metadata doc"
    using split_documents_metadata [of chunk _ docs] by (auto simp: aprocess_documents_def)
  with aprocess_files_documents [OF a] obtain f where
    "f \<in> set uploaded_files" and "metadata chunk = [''file_name'' \<mapsto> name f]"
    by force
  then show "\<exists>f\<in>set uploaded_files. metadata chunk ''file_name'' = Some (name f)"
    by auto
qed

theorem file_name_metadata_witness:
  "aprocess_file example_decoders report_pdf Map.empty
     = (Inr (Some \<lparr>page_content = ''The capital of France is Paris.'',
                    metadata = [''file_name'' \<mapsto> ''report.pdf'']\<rparr>), Map.empty)
   \<and> aprocess_documents halves_app
        [\<lparr>page_content = ''The capital of France is Paris.'',
          metadata = [''file_name'' \<mapsto> ''report.pdf'']\<rparr>]
       = [\<lparr>page_content = ''The capital of '', metadata = [''file_name'' \<mapsto> ''report.pdf'']\<rparr>,
          \<lparr>page_content = ''France is Paris.'', metadata = [''file_name'' \<mapsto> ''report.pdf'']\<rparr>]
   \<and> name report_pdf = ''report.pdf''"
  using file_name_metadata [of example_decoders report_pdf Map.empty
      "\<lparr>page_content = ''The capital of France is Paris.'',
        metadata = [''file_name'' \<mapsto> ''report.pdf'']\<rparr>" Map.empty halves_app "[report_pdf]"
      "[\<lparr>page_content = ''The capital of France is Paris.'',
        metadata = [''file_name'' \<mapsto> ''report.pdf'']\<rparr>]"]
  by (simp add: example_defs aprocess_documents_def split_documents_def
        aprocess_file_def aprocess_file_cancel_def Let_def try_body_def finally_cleanup_def
        path_join_def aprocess_pdf_def await_decode_def)

section \<open>Retrieval, prompt assembly and one question\<close>

lemma slice_from_last3: "slice_from xs (- 3) = drop (length xs - 3) xs"
proof -
  have "nat (max 0 (int (length xs) + - 3)) = length xs - 3" by linarith
  then show ?thesis by (simp add: slice_from_def Let_def)
qed

lemma agenerate_response_unfold:
  "agenerate_response app query r ch cs =
     (case similarity_search (vector_db r) query 3 of
        Inl e \<Rightarrow> (Inl e, cs @ [SimilaritySearch query 3])
      | Inr docs \<Rightarrow>
          (llm_ainvoke app
             (prompt_ainvoke (join ''\<newline>'' (map page_content docs)) (history_str ch) query),
           cs @ [SimilaritySearch query 3,
                 LlmInvoke (prompt_ainvoke (join ''\<newline>'' (map page_content docs))
                              (history_str ch) query)]))"
  by (simp add: agenerate_response_def aretrieve_def Let_def split: sum.splits)

lemma history_str_three:
  "history_str (older @ [(q1, a1), (q2, a2), (q3, a3)])
     = ''Q: '' @ q1 @ ''\<newline>A: '' @ a1 @ ''\<newline>''
       @ ''Q: '' @ q2 @ ''\<newline>A: '' @ a2 @ ''\<newline>''
       @ ''Q: '' @ q3 @ ''\<newline>A: '' @ a3"
  by (simp add: history_str_def slice_from_last3 format_pair_def)

text \<open>
  C6 as stated (a retrieval that leaves \<open>top_k\<close> out returns at most 3 results) fails:
  such a call of \<open>aretrieve\<close> asks the index for 5 results, and on an index of five
  chunks it returns all five.
\<close>

theorem aretrieve_default_counterexample:
  "aretrieve \<lparr>vector_db = example_chroma\<rparr> ''Paris?'' None []
     = (Inr example_chunks, [SimilaritySearch ''Paris?'' 5])
   \<and> \<not> length example_chunks \<le> 3"
  by (simp add: example_defs aretrieve_def)

text \<open>
  C6, amended. The default \<open>top_k\<close> of \<open>aretrieve\<close> is 5: a call that leaves it out passes
  5 to the index's similarity search. \<open>agenerate_response\<close> always names \<open>top_k = 3\<close>: the
  first call it makes is the similarity search for 3 results, and when the index never
  returns more than the (non-negative) number asked for, such a retrieval returns at most
  3 documents.
\<close>

theorem aretrieve_top_k:
  "aretrieve r query None cs
     = (similarity_search (vector_db r) query 5, cs @ [SimilaritySearch query 5])
   \<and> take (Suc (length cs)) (snd (agenerate_response app query r ch cs))
       = cs @ [SimilaritySearch query 3]
   \<and> ((\<forall>q k docs. 0 \<le> k \<and> similarity_search (vector_db r) q k = Inr docs
                      \<longrightarrow> int (length docs) \<le> k)
        \<longrightarrow> (\<forall>docs cs'. aretrieve r query (Some 3) cs = (Inr docs, cs') \<longrightarrow> length docs \<le> 3))"
proof (intro conjI impI allI)
  show "aretrieve r query None cs
     = (similarity_search (vector_db r) query 5, cs @ [SimilaritySearch query 5])"
    by (simp add: aretrieve_def)
next
  show "take (Suc (length cs)) (snd (agenerate_response app query r ch cs))
       = cs @ [SimilaritySearch query 3]"
    by (simp add: agenerate_response_unfold split: sum.splits)
next
  fix docs cs'
  assume b: "\<forall>q k docs. 0 \<le> k \<and> similarity_search (vector_db r) q k = Inr docs
                \<longrightarrow> int (length docs) \<le> k"
    and a: "aretrieve r query (Some 3) cs = (Inr docs, cs')"
  from a have "0 \<le> (3::int) \<and> similarity_search (vector_db r) query 3 = Inr docs"
    by (simp add: aretrieve_def)
  then have "int (length docs) \<le> 3" by (rule b [rule_format])
  then show "length docs \<le> 3" by simp
qed

theorem aretrieve_top_k_witness:
  "aretrieve \<lparr>vector_db = example_chroma\<rparr> ''Paris?'' None []
     = (Inr example_chunks, [SimilaritySearch ''Paris?'' 5])
   \<and> aretrieve \<lparr>vector_db = example_chroma\<rparr> ''Paris?'' (Some 3) []
     = (Inr (take 3 example_chunks), [SimilaritySearch ''Paris?'' 3])
   \<and> length (take 3 example_chunks) \<le> 3"
proof -
  have bound: "\<forall>q k docs.
      0 \<le> k \<and> similarity_search (vector_db \<lparr>vector_db = example_chroma\<rparr>) q k = Inr docs
      \<longrightarrow> int (length docs) \<le> k"
    by (auto simp: example_chroma_def)
  show ?thesis
    using bound aretrieve_top_k [of "\<lparr>vector_db = example_chroma\<rparr>" "''Paris?''" "[]"
        example_app "[]"]
    by (simp add: example_defs aretrieve_def)
qed

text \<open>
  C7. In a session with a retriever, when the similarity search raises an exception, or
  it succeeds and the language model raises one, the question ends with the error
  "Error generating response: ..." carrying the exception's text; the chat history of
  (question, answer) pairs is what it was and the retriever is still installed. Only the
  user's message, appended to the displayed messages before the attempt, is new.
\<close>

theorem ask_failure:
  assumes r: "retriever s = Some r"
    and fails:
      "similarity_search (vector_db r) prompt 3 = Inl (Exception m)
       \<or> (\<exists>docs. similarity_search (vector_db r) prompt 3 = Inr docs
              \<and> llm_ainvoke app
                    (prompt_ainvoke (join ''\<newline>'' (map page_content docs))
                       (history_str (chat_history s)) prompt) = Inl (Exception m))"
  shows "\<exists>s' w'. ask app prompt s w = (Returns, s', w')
           \<and> chat_history s' = chat_history s
           \<and> retriever s' = Some r
           \<and> messages s' = messages s @ [(''user'', prompt)]
           \<and> page w' = page w @ [StMarkdown ''user'' prompt,
                                  StError (''Error generating response: '' @ m)]"
proof -
  from fails obtain cs1 where
    "agenerate_response app prompt r (chat_history s) (calls w) = (Inl (Exception m), cs1)"
    by (auto simp: agenerate_response_unfold)
  then show ?thesis using r by (simp add: ask_def st_show_def Let_def)
qed

theorem ask_failure_witness:
  "ask example_app ''Paris?'' ready_session empty_world
     = (Returns,
        ready_session\<lparr>messages := messages ready_session @ [(''user'', ''Paris?'')]\<rparr>,
        \<lparr>disk = Map.empty,
         calls = [SimilaritySearch ''Paris?'' 3,
                  LlmInvoke (prompt_ainvoke ''one\<newline>two\<newline>three'' ''Q: hi\<newline>A: hello'' ''Paris?'')],
         page = [StMarkdown ''user'' ''Paris?'',
                 StError ''Error generating response: rate limit'']\<rparr>)"
  using ask_failure [of ready_session "\<lparr>vector_db = example_chroma\<rparr>" "''Paris?''"
      "''rate limit''" example_app empty_world]
  by (simp add: example_defs ask_def agenerate_response_unfold st_show_def Let_def
        history_str_def slice_from_def format_pair_def)

text \<open>
  C9. The chat-history text of the prompt is made of the last three pairs of the
  history, or of all of them when there are at most three: each pair as the line
  "Q: question" followed by the line "A: answer", the pairs joined by newlines. Pairs
  before the last three do not enter it. This text is the \<open>chat_history\<close> argument of
  the prompt sent to the language model, and after an answer the session's history is
  the whole previous history with the new pair appended.
\<close>

theorem chat_history_prompt:
  "history_str ch = join ''\<newline>'' (map (\<lambda>(q, a). ''Q: '' @ q @ ''\<newline>A: '' @ a)
                                       (drop (length ch - 3) ch))
   \<and> (length ch \<le> 3 \<longrightarrow> drop (length ch - 3) ch = ch)
   \<and> history_str (older @ [(q1, a1), (q2, a2), (q3, a3)])
       = ''Q: '' @ q1 @ ''\<newline>A: '' @ a1 @ ''\<newline>''
         @ ''Q: '' @ q2 @ ''\<newline>A: '' @ a2 @ ''\<newline>''
         @ ''Q: '' @ q3 @ ''\<newline>A: '' @ a3
   \<and> (\<forall>docs. similarity_search (vector_db r) query 3 = Inr docs \<longrightarrow>
         snd (agenerate_response app query r ch cs)
           = cs @ [SimilaritySearch query 3,
                   LlmInvoke (prompt_ainvoke (join ''\<newline>'' (map page_content docs))
                                (history_str ch) query)])
   \<and> (\<forall>response cs1.
         retriever s = Some r
         \<and> agenerate_response app query r (chat_history s) (calls w) = (Inr response, cs1)
         \<longrightarrow> chat_history (fst (snd (ask app query s w))) = chat_history s @ [(query, response)])"
proof (intro conjI allI impI)
  have "format_pair = (\<lambda>(q, a). ''Q: '' @ q @ ''\<newline>A: '' @ a)"
    by (simp add: fun_eq_iff format_pair_def)
  then show "history_str ch = join ''\<newline>'' (map (\<lambda>(q, a). ''Q: '' @ q @ ''\<newline>A: '' @ a)
                                       (drop (length ch - 3) ch))"
    by (simp add: history_str_def slice_from_last3)
next
  assume "length ch \<le> 3"
  then show "drop (length ch - 3) ch = ch" by simp
next
  show "history_str (older @ [(q1, a1), (q2, a2), (q3, a3)])
       = ''Q: '' @ q1 @ ''\<newline>A: '' @ a1 @ ''\<newline>''
         @ ''Q: '' @ q2 @ ''\<newline>A: '' @ a2 @ ''\<newline>''
         @ ''Q: '' @ q3 @ ''\<newline>A: '' @ a3"
    by (rule history_str_three)
next
  fix docs
  assume "similarity_search (vector_db r) query 3 = Inr docs"
  then show "snd (agenerate_response app query r ch cs)
           = cs @ [SimilaritySearch query 3,
                   LlmInvoke (prompt_ainvoke (join ''\<newline>'' (map page_content docs))
                                (history_str ch) query)]"
    by (simp add: agenerate_response_unfold)
next
  fix response cs1
  assume "retriever s = Some r
         \<and> agenerate_response app query r (chat_history s) (calls w) = (Inr response, cs1)"
  then show "chat_history (fst (snd (ask app query s w))) = chat_history s @ [(query, response)]"
    by (simp add: ask_def Let_def st_show_def)
qed

theorem chat_history_prompt_witness:
  "history_str long_history = ''Q: q2\<newline>A: a2\<newline>Q: q3\<newline>A: a3\<newline>Q: q4\<newline>A: a4''
   \<and> history_str [(''hi'', ''hello'')] = ''Q: hi\<newline>A: hello''
   \<and> history_str [] = []
   \<and> chat_history (fst (snd (ask answering_app ''Paris?''
                                (ready_session\<lparr>chat_history := long_history\<rparr>) empty_world)))
       = long_history @ [(''Paris?'', ''Paris'')]"
  using chat_history_prompt [of long_history "[(''q1'', ''a1'')]" "''q2''" "''a2''" "''q3''" "''a3''"
      "''q4''" "''a4''" "\<lparr>vector_db = example_chroma\<rparr>" "''Paris?''" answering_app "[]"
      "ready_session\<lparr>chat_history := long_history\<rparr>" empty_world]
  by (simp add: example_defs ask_def agenerate_response_unfold
        st_show_def Let_def history_str_def slice_from_def format_pair_def)

section \<open>The upload size limit\<close>

text \<open>
  C10. \<open>validate_file_size\<close> raises exactly when the file type has an entry in
  \<open>MAX_FILE_SIZES\<close> and the size is strictly above it; for a type without an entry it
  returns normally whatever the size.
\<close>

theorem validate_file_size_raises_iff:
  "(\<exists>e. validate_file_size file_size file_type = Inl e)
     = (\<exists>max_size. MAX_FILE_SIZES file_type = Some max_size \<and> file_size > max_size)
   \<and> (MAX_FILE_SIZES file_type = None \<longrightarrow> validate_file_size file_size file_type = Inr ())"
  by (auto simp: validate_file_size_def MAX_FILE_SIZES_def split: if_splits)

theorem validate_file_size_raises_iff_witness:
  "MAX_FILE_SIZES ''docx'' = None
   \<and> validate_file_size (10 ^ 12) ''docx'' = Inr ()
   \<and> validate_file_size (20 * 1024 * 1024 + 1) ''pdf'' = Inl (HTTPException 400)
   \<and> validate_file_size (20 * 1024 * 1024) ''pdf'' = Inr ()"
  using validate_file_size_raises_iff [of "10 ^ 12" "''docx''"]
  by (simp add: validate_file_size_def MAX_FILE_SIZES_def HTTP_400_BAD_REQUEST_def)

end
